theory Spec2Isabelle
  imports Main "HOL-Library.Sublist"
begin

section \<open>Shared vocabulary\<close>

text \<open>
  Go errors are modelled by their message text. A function that can panic (an index out
  of range, a failed type assertion) returns an \<open>outcome\<close>; everything else returns
  its Go result, with \<open>None\<close> for a \<open>nil\<close> error.
\<close>

type_synonym err = string

datatype 'a outcome = Panic string | Returned 'a

text \<open>An external command line: the argument vector handed to \<open>exec.Command\<close>.\<close>

type_synonym argv = "string list"

subsection \<open>Config (the fields the builder's steps and the Communicator read)\<close>

record config =
  Image :: string
  RunCommand :: "string list"
  Device :: "string list"
  CapAdd :: "string list"
  CapDrop :: "string list"
  TmpFs :: "string list"
  Volumes :: "string \<rightharpoonup> string"
  Privileged :: bool
  Systemd :: string
  ContainerDir :: string
  ExecUser :: string
  Pty :: bool
  Pull :: bool
  FixUploadOwner :: bool
  Login :: bool
  LoginPassword :: string
  LoginServer :: string
  LoginUsername :: string

subsection \<open>Communicator\<close>

text \<open>
  The struct of communicator.go without its \<open>lock\<close> field: the mutex is shared mutable
  state and lives in the interleaving model further down.
\<close>

record communicator =
  ContainerID :: string
  HostDir :: string
  CommContainerDir :: string
  Version :: string
  Config :: config
  ContainerUser :: string
  EntryPoint :: "string list"

section \<open>Path helpers of the Go standard library (path/filepath, Unix)\<close>

text \<open>
  \<open>uploadFile\<close> calls \<open>filepath.Base\<close> and \<open>filepath.Dir\<close>. They are library code, modelled
  here after their documented behaviour on a slash-separated path with no volume name.
\<close>

fun split_slash :: "string \<Rightarrow> string list" where
  "split_slash [] = [[]]"
| "split_slash (c # cs) =
     (if c = CHR ''/'' then [] # split_slash cs
      else (case split_slash cs of [] \<Rightarrow> [[c]] | p # ps \<Rightarrow> (c # p) # ps))"

fun join_slash :: "string list \<Rightarrow> string" where
  "join_slash [] = []"
| "join_slash [p] = p"
| "join_slash (p # q # ps) = p @ ''/'' @ join_slash (q # ps)"

text \<open>
  One element of \<open>Clean\<close>: the stack holds the elements kept so far, last first. A
  \<open>..\<close> removes the element before it, unless none is left to remove: then it is
  kept on a relative path and dropped on a rooted one.
\<close>

definition clean_push :: "bool \<Rightarrow> string \<Rightarrow> string list \<Rightarrow> string list" where
  "clean_push rooted e stack =
     (if e = ''..'' then
        (case stack of
           [] \<Rightarrow> (if rooted then [] else [''..''])
         | t # ts \<Rightarrow> (if t = ''..'' then ''..'' # t # ts else ts))
      else e # stack)"

definition filepath_Clean :: "string \<Rightarrow> string" where
  "filepath_Clean path =
     (if path = [] then ''.''
      else
        (let rooted = (hd path = CHR ''/'');
             elems = filter (\<lambda>e. e \<noteq> [] \<and> e \<noteq> ''.'') (split_slash path);
             kept = rev (fold (clean_push rooted) elems []);
             out = (if rooted then ''/'' else []) @ join_slash kept
         in if out = [] then ''.'' else out))"

definition filepath_Dir :: "string \<Rightarrow> string" where
  "filepath_Dir path =
     filepath_Clean (rev (dropWhile (\<lambda>c. c \<noteq> CHR ''/'') (rev path)))"

definition filepath_Base :: "string \<Rightarrow> string" where
  "filepath_Base path =
     (if path = [] then ''.''
      else
        (let stripped = rev (dropWhile (\<lambda>c. c = CHR ''/'') (rev path));
             lastel = rev (takeWhile (\<lambda>c. c \<noteq> CHR ''/'') (rev stripped))
         in if lastel = [] then ''/'' else lastel))"

section \<open>File transfer through \<open>podman cp\<close>\<close>

text \<open>
  What the operating system answers to one \<open>podman cp\<close> sub-process and to the
  follow-up \<open>chown\<close>: the error of each pipe request, of \<open>Start\<close>, of reading the whole
  of stderr (\<open>Inl\<close> the error, \<open>Inr\<close> the bytes read) and of \<open>Wait\<close>; for the chown,
  \<open>Some (error, combined output)\<close> when it fails.
\<close>

record proc_env =
  stdout_pipe :: "err option"
  stderr_pipe :: "err option"
  stdin_pipe :: "err option"
  start_res :: "err option"
  stderr_all :: "err + string"
  wait_res :: "err option"
  chown_res :: "(err \<times> string) option"

text \<open>
  The result of a transfer: the error returned (\<open>None\<close> is \<open>nil\<close>) and the command lines
  of the sub-processes it started, in order.
\<close>

type_synonym transfer_result = "err option \<times> argv list"

definition fixDestinationOwner :: "communicator \<Rightarrow> string \<Rightarrow> proc_env \<Rightarrow> transfer_result" where
  "fixDestinationOwner c destination env =
     (if \<not> FixUploadOwner (Config c) then (None, [])
      else
        (let owner = (if ContainerUser c = [] then ''root'' else ContainerUser c);
             chownArgs = [''podman'', ''exec'', ''--user'', ''root'', ContainerID c, ''/bin/sh'', ''-c'',
                          ''chown -R '' @ owner @ '' '' @ destination]
         in (case chown_res env of
               Some (e, output) \<Rightarrow>
                 (Some (''Failed to set owner of the uploaded file: '' @ e @ '', '' @ output), [chownArgs])
             | None \<Rightarrow> (None, [chownArgs]))))"

definition upload_failed :: "string \<Rightarrow> string \<Rightarrow> err \<Rightarrow> err" where
  "upload_failed dst stderrOut e =
     ''Failed to upload to '' @ [CHR 0x27] @ dst @ [CHR 0x27] @ '' in container: '' @ stderrOut @ ''. '' @ e @ ''.''"

subsection \<open>UploadDir\<close>

definition podmanSource :: "string \<Rightarrow> string" where
  "podmanSource src = (if last src = CHR ''/'' then src @ ''.'' else src)"

definition UploadDir_cmd :: "communicator \<Rightarrow> string \<Rightarrow> string \<Rightarrow> argv" where
  "UploadDir_cmd c dst src = [''podman'', ''cp'', podmanSource src, ContainerID c @ '':'' @ dst]"

text \<open>
  \<open>src[len(src)-1]\<close> is evaluated first: on the empty string the index is \<open>-1\<close> and Go
  panics before any command is built. The exclude list is never read.
\<close>

definition UploadDir ::
  "communicator \<Rightarrow> string \<Rightarrow> string \<Rightarrow> string list \<Rightarrow> proc_env \<Rightarrow> transfer_result outcome" where
  "UploadDir c dst src exclude env =
     (if src = [] then Panic ''runtime error: index out of range [-1]''
      else
        (let localCmd = UploadDir_cmd c dst src in
         case stderr_pipe env of
           Some e \<Rightarrow> Returned (Some (''Failed to open pipe: '' @ e), [])
         | None \<Rightarrow>
        (case start_res env of
           Some e \<Rightarrow> Returned (Some (''Failed to copy: '' @ e), [])
         | None \<Rightarrow>
        (case stderr_all env of
           Inl e \<Rightarrow> Returned (Some e, [localCmd])
         | Inr stderrOut \<Rightarrow>
        (case wait_res env of
           Some e \<Rightarrow> Returned (Some (upload_failed dst stderrOut e), [localCmd])
         | None \<Rightarrow>
        (case fixDestinationOwner c dst env of
           (r, cmds) \<Rightarrow> Returned (r, localCmd # cmds)))))))"

subsection \<open>Tar streams\<close>

text \<open>
  \<open>podman cp\<close> with \<open>-\<close> speaks tar. The archive/tar library is modelled at the level
  of entries: a stream is the list of its entries, each a header and a body.
\<close>

record file_info =
  fi_Name :: string
  fi_Size :: nat
  fi_IsDir :: bool

record tar_header =
  hdr_Name :: string
  hdr_Size :: nat
  hdr_IsDir :: bool

type_synonym tar_entry = "tar_header \<times> string"

text \<open>\<open>tar.FileInfoHeader(fi, "")\<close>: the header of a file, or the library's error.\<close>

definition FileInfoHeader :: "file_info \<Rightarrow> err option \<Rightarrow> err + tar_header" where
  "FileInfoHeader fi failure =
     (case failure of
        Some e \<Rightarrow> Inl e
      | None \<Rightarrow>
          Inr \<lparr>hdr_Name = (if fi_IsDir fi then fi_Name fi @ ''/'' else fi_Name fi),
               hdr_Size = (if fi_IsDir fi then 0 else fi_Size fi),
               hdr_IsDir = fi_IsDir fi\<rparr>)"

text \<open>
  \<open>tar.Reader.Next\<close> on what the sub-process wrote to stdout: \<open>Inl e\<close> is a stream whose
  next header cannot be parsed, \<open>Inr\<close> the entries of a well-formed stream. At the end of
  a well-formed stream \<open>Next\<close> returns \<open>io.EOF\<close>.
\<close>

definition tar_Next :: "err + tar_entry list \<Rightarrow> err + tar_entry" where
  "tar_Next stream =
     (case stream of
        Inl e \<Rightarrow> Inl e
      | Inr [] \<Rightarrow> Inl ''EOF''
      | Inr (entry # rest) \<Rightarrow> Inr entry)"

text \<open>
  \<open>io.Copy\<close>: \<open>None\<close> copies the whole source; \<open>Some (n, e)\<close> fails with \<open>e\<close> after \<open>n\<close>
  bytes have been written. The result is the error and the bytes that reached the writer.
\<close>

definition io_Copy :: "string \<Rightarrow> (nat \<times> err) option \<Rightarrow> err option \<times> string" where
  "io_Copy source failure =
     (case failure of
        None \<Rightarrow> (None, source)
      | Some (n, e) \<Rightarrow> (Some e, take n source))"

subsection \<open>Download\<close>

record download_env =
  dl_proc :: proc_env
  dl_stdout :: "err + tar_entry list"
  dl_copy :: "(nat \<times> err) option"

definition Download_cmd :: "communicator \<Rightarrow> string \<Rightarrow> argv" where
  "Download_cmd c src = [''podman'', ''cp'', ContainerID c @ '':'' @ src, ''-'']"

text \<open>
  The result is the error, the sub-processes started and the bytes written to the
  destination writer.
\<close>

definition Download ::
  "communicator \<Rightarrow> string \<Rightarrow> download_env \<Rightarrow> err option \<times> argv list \<times> string" where
  "Download c src env =
     (let localCmd = Download_cmd c src; p = dl_proc env in
      case stdout_pipe p of
        Some e \<Rightarrow> (Some (''Failed to open pipe: '' @ e), [], [])
      | None \<Rightarrow>
     (case stderr_pipe p of
        Some e \<Rightarrow> (Some (''Failed to open stderr pipe: '' @ e), [], [])
      | None \<Rightarrow>
     (case start_res p of
        Some e \<Rightarrow> (Some (''Failed to start download: '' @ e), [], [])
      | None \<Rightarrow>
     (case tar_Next (dl_stdout env) of
        Inl e \<Rightarrow>
          (case stderr_all p of
             Inr stderrOut \<Rightarrow>
               (if stderrOut \<noteq> [] then (Some (''Error downloading file: '' @ stderrOut), [localCmd], [])
                else (Some (''Failed to read header from tar stream: '' @ e), [localCmd], []))
           | Inl _ \<Rightarrow> (Some (''Failed to read header from tar stream: '' @ e), [localCmd], []))
      | Inr (header, body) \<Rightarrow>
     (case io_Copy body (dl_copy env) of
        (Some e, written) \<Rightarrow> (Some (''Failed to pipe download: '' @ e), [localCmd], written)
      | (None, written) \<Rightarrow>
     (case wait_res p of
        Some e \<Rightarrow>
          (Some (''Failed to download '' @ [CHR 0x27] @ src @ [CHR 0x27] @ '' from container: '' @ e),
           [localCmd], written)
      | None \<Rightarrow> (None, [localCmd], written)))))))"

definition DownloadDir :: "communicator \<Rightarrow> string \<Rightarrow> string \<Rightarrow> string list \<Rightarrow> err option" where
  "DownloadDir c src dst exclude = Some ''DownloadDir is not implemented for podman''"

subsection \<open>Upload\<close>

record upload_env =
  create_temp :: "err option"
  temp_copy :: "err option"
  temp_seek :: "err option"
  temp_stat :: "err + file_info"
  up_proc :: proc_env
  header_failure :: "err option"
  write_header :: "err option"
  up_copy :: "(nat \<times> err) option"
  archive_close :: "err option"
  stdin_close :: "err option"

definition uploadFile_cmd :: "communicator \<Rightarrow> string \<Rightarrow> argv" where
  "uploadFile_cmd c dst = [''podman'', ''cp'', ''-'', ContainerID c @ '':'' @ filepath_Dir dst]"

text \<open>
  The result is the error, the sub-processes started and the tar entries written to the
  standard input of the copy process. The entry exists once its header is written; its
  body is what \<open>io.Copy\<close> delivered.
\<close>

definition uploadFile ::
  "communicator \<Rightarrow> string \<Rightarrow> string \<Rightarrow> file_info \<Rightarrow> upload_env
     \<Rightarrow> err option \<times> argv list \<times> tar_entry list" where
  "uploadFile c dst src fi env =
     (let localCmd = uploadFile_cmd c dst; p = up_proc env in
      case stderr_pipe p of
        Some e \<Rightarrow> (Some (''Failed to open pipe: '' @ e), [], [])
      | None \<Rightarrow>
     (case stdin_pipe p of
        Some e \<Rightarrow> (Some (''Failed to open pipe: '' @ e), [], [])
      | None \<Rightarrow>
     (case start_res p of
        Some e \<Rightarrow> (Some e, [], [])
      | None \<Rightarrow>
     (case FileInfoHeader fi (header_failure env) of
        Inl e \<Rightarrow> (Some e, [localCmd], [])
      | Inr header0 \<Rightarrow>
     (let header = header0\<lparr>hdr_Name := filepath_Base dst\<rparr> in
      case write_header env of
        Some e \<Rightarrow> (Some (''Failed to write header: '' @ e), [localCmd], [])
      | None \<Rightarrow>
     (case io_Copy src (up_copy env) of
        (Some e, written) \<Rightarrow> (Some (''Failed to pipe upload: '' @ e), [localCmd], [(header, written)])
      | (None, written) \<Rightarrow>
     (let archive = [(header, written)] in
      case archive_close env of
        Some e \<Rightarrow> (Some (''Failed to close archive: '' @ e), [localCmd], archive)
      | None \<Rightarrow>
     (case stdin_close env of
        Some e \<Rightarrow> (Some (''Failed to close stdin: '' @ e), [localCmd], archive)
      | None \<Rightarrow>
     (case stderr_all p of
        Inl e \<Rightarrow> (Some e, [localCmd], archive)
      | Inr stderrOut \<Rightarrow>
     (case wait_res p of
        Some e \<Rightarrow> (Some (upload_failed dst stderrOut e), [localCmd], archive)
      | None \<Rightarrow>
     (case fixDestinationOwner c dst p of
        (r, cmds) \<Rightarrow> (r, localCmd # cmds, archive))))))))))))"

text \<open>
  \<open>uploadReader\<close> spools the reader into a temporary file of the host directory and
  uploads that file, with the file's own \<open>Stat\<close> as metadata.
\<close>

definition uploadReader ::
  "communicator \<Rightarrow> string \<Rightarrow> string \<Rightarrow> upload_env \<Rightarrow> err option \<times> argv list \<times> tar_entry list" where
  "uploadReader c dst src env =
     (case create_temp env of
        Some e \<Rightarrow> (Some (''Failed to open temp file for writing: '' @ e), [], [])
      | None \<Rightarrow>
     (case temp_copy env of
        Some e \<Rightarrow> (Some (''Failed to copy upload file to tempfile: '' @ e), [], [])
      | None \<Rightarrow>
     (case temp_seek env of
        Some e \<Rightarrow> (Some (''Error seeking tempfile info: '' @ e), [], [])
      | None \<Rightarrow>
     (case temp_stat env of
        Inl e \<Rightarrow> (Some (''Error getting tempfile info: '' @ e), [], [])
      | Inr fi \<Rightarrow> uploadFile c dst src fi env))))"

definition Upload ::
  "communicator \<Rightarrow> string \<Rightarrow> string \<Rightarrow> file_info option \<Rightarrow> upload_env
     \<Rightarrow> err option \<times> argv list \<times> tar_entry list" where
  "Upload c dst src fi env =
     (case fi of
        None \<Rightarrow> uploadReader c dst src env
      | Some info \<Rightarrow> uploadFile c dst src info env)"

section \<open>Remote commands\<close>

subsection \<open>RemoteCmd\<close>

text \<open>
  The SDK's RemoteCmd as the Communicator uses it: the command text, the three optional
  streams (\<open>None\<close> is a \<open>nil\<close> stream; a sink holds the bytes it has received) and the
  exit-status cell, \<open>None\<close> until \<open>SetExited\<close> writes it.
\<close>

record remote_cmd =
  Command :: string
  Stdin :: "string option"
  Stdout :: "string option"
  Stderr :: "string option"
  exit_cell :: "int option"

definition SetExited :: "remote_cmd \<Rightarrow> int \<Rightarrow> remote_cmd" where
  "SetExited remote status = remote\<lparr>exit_cell := Some status\<rparr>"

subsection \<open>What \<open>cmd.Wait\<close> returns\<close>

text \<open>
  How a process ended, what \<open>ProcessState.Sys()\<close> holds for it (a \<open>syscall.WaitStatus\<close>
  where the platform has one), and the error value of \<open>cmd.Wait()\<close>: \<open>nil\<close>, an
  \<open>*exec.ExitError\<close>, or an error of another type.
\<close>

datatype proc_exit = ExitedWith nat | KilledBy nat

datatype sys_info = SysWaitStatus proc_exit | SysOther

datatype wait_err = WaitNil | WaitExitError sys_info | WaitOther err

text \<open>\<open>syscall.WaitStatus.ExitStatus\<close>: the exit code, or \<open>-1\<close> if the process did not exit.\<close>

definition ExitStatus :: "proc_exit \<Rightarrow> int" where
  "ExitStatus ws = (case ws of ExitedWith code \<Rightarrow> int code | KilledBy sig \<Rightarrow> - 1)"

text \<open>
  The contract of \<open>exec.Cmd.Wait\<close> in the Go library: the error is \<open>nil\<close> when the
  process was waited for and exited with code 0, an \<open>*exec.ExitError\<close> carrying the
  process state when it was waited for and ended any other way, and an error of another
  type when waiting itself failed.
\<close>

definition cmd_Wait :: "err option \<Rightarrow> bool \<Rightarrow> proc_exit \<Rightarrow> wait_err" where
  "cmd_Wait wait_failure has_wait_status ended =
     (case wait_failure of
        Some e \<Rightarrow> WaitOther e
      | None \<Rightarrow>
          (if ended = ExitedWith 0 then WaitNil
           else WaitExitError (if has_wait_status then SysWaitStatus ended else SysOther)))"

subsection \<open>Start and run\<close>

record exec_env =
  ex_stdin_pipe :: "err option"
  ex_stderr_pipe :: "err option"
  ex_stdout_pipe :: "err option"
  ex_start :: "err option"
  ex_stdout :: string
  ex_stderr :: string
  ex_wait :: wait_err

definition podmanArgs :: "communicator \<Rightarrow> remote_cmd \<Rightarrow> argv" where
  "podmanArgs c remote =
     (let a0 = [''exec'', ''-i'', ContainerID c] @ EntryPoint c @ [''('' @ Command remote @ '')''];
          a1 = (if Pty (Config c) then take 2 a0 @ [''-t''] @ drop 2 a0 else a0)
      in if ExecUser (Config c) \<noteq> [] then take 2 a1 @ [''-u'', ExecUser (Config c)] @ drop 2 a1
         else a1)"

text \<open>
  \<open>Start\<close> returns its error and, when it launched the \<open>run\<close> goroutine, the command line
  that goroutine will execute.
\<close>

definition Start :: "communicator \<Rightarrow> remote_cmd \<Rightarrow> exec_env \<Rightarrow> err option \<times> argv option" where
  "Start c remote env =
     (let cmd = ''podman'' # podmanArgs c remote in
      case ex_stdin_pipe env of
        Some e \<Rightarrow> (Some e, None)
      | None \<Rightarrow>
     (case ex_stderr_pipe env of
        Some e \<Rightarrow> (Some e, None)
      | None \<Rightarrow>
     (case ex_stdout_pipe env of
        Some e \<Rightarrow> (Some e, None)
      | None \<Rightarrow> (None, Some cmd))))"

definition exitStatus :: "wait_err \<Rightarrow> int" where
  "exitStatus e =
     (case e of
        WaitExitError sys \<Rightarrow>
          (case sys of SysWaitStatus status \<Rightarrow> ExitStatus status | SysOther \<Rightarrow> 1)
      | _ \<Rightarrow> 0)"

text \<open>
  The body of \<open>run\<close> between taking and releasing the lock: the RemoteCmd as the goroutine
  leaves it. The sinks that are not \<open>nil\<close> receive the process's output before the exit
  status is published.
\<close>

definition run :: "remote_cmd \<Rightarrow> exec_env \<Rightarrow> remote_cmd" where
  "run remote env =
     (case ex_start env of
        Some e \<Rightarrow> SetExited remote 254
      | None \<Rightarrow>
          SetExited
            (remote\<lparr>Stdout := map_option (\<lambda>sink. sink @ ex_stdout env) (Stdout remote),
                    Stderr := map_option (\<lambda>sink. sink @ ex_stderr env) (Stderr remote)\<rparr>)
            (exitStatus (ex_wait env)))"

section \<open>The lock: interleavings of Communicator operations\<close>

text \<open>
  Each \<open>run\<close> goroutine and each transfer call is a task with a program counter. A
  \<open>run\<close> goroutine is \<open>Queued\<close> until \<open>c.lock.Lock()\<close> returns, \<open>Holding\<close> until
  \<open>cmd.Start()\<close> returns, \<open>InFlight\<close> from a successful spawn until \<open>cmd.Wait()\<close>
  returns, \<open>Waited\<close> until it publishes the status and returns (the deferred \<open>Unlock\<close>
  runs then), and \<open>Finished\<close> with the published status. A transfer is \<open>Called\<close>, then
  \<open>Copying\<close> while its \<open>podman cp\<close> process runs, then \<open>Completed\<close>; none of
  \<open>Upload\<close>, \<open>UploadDir\<close> and \<open>Download\<close> mentions the lock.
\<close>

datatype exec_pc = Queued | Holding | InFlight | Waited wait_err | Finished int

datatype transfer_kind = KUpload | KUploadDir | KDownload

datatype transfer_pc = Called | Copying | Completed

datatype task = Exec exec_pc | Transfer transfer_kind transfer_pc

record comm_state =
  locked :: bool
  tasks :: "task list"

datatype event =
    Submit
  | Lock nat
  | CmdStart nat "err option"
  | CmdWait nat wait_err
  | Publish nat
  | TransferCall transfer_kind
  | TransferStart nat "err option"
  | TransferWait nat

definition set_task :: "comm_state \<Rightarrow> nat \<Rightarrow> task \<Rightarrow> comm_state" where
  "set_task s i t = s\<lparr>tasks := (tasks s)[i := t]\<rparr>"

definition task_at :: "comm_state \<Rightarrow> nat \<Rightarrow> task option" where
  "task_at s i = (if i < length (tasks s) then Some (tasks s ! i) else None)"

text \<open>One step of one task; \<open>None\<close> when the task cannot take that step in this state.\<close>

fun step :: "comm_state \<Rightarrow> event \<Rightarrow> comm_state option" where
  "step s Submit = Some (s\<lparr>tasks := tasks s @ [Exec Queued]\<rparr>)"
| "step s (Lock i) =
     (if task_at s i = Some (Exec Queued) \<and> \<not> locked s
      then Some ((set_task s i (Exec Holding))\<lparr>locked := True\<rparr>) else None)"
| "step s (CmdStart i r) =
     (if task_at s i = Some (Exec Holding) then
        (case r of
           None \<Rightarrow> Some (set_task s i (Exec InFlight))
         | Some e \<Rightarrow> Some ((set_task s i (Exec (Finished 254)))\<lparr>locked := False\<rparr>))
      else None)"
| "step s (CmdWait i w) =
     (if task_at s i = Some (Exec InFlight) then Some (set_task s i (Exec (Waited w))) else None)"
| "step s (Publish i) =
     (case task_at s i of
        Some (Exec (Waited w)) \<Rightarrow>
          Some ((set_task s i (Exec (Finished (exitStatus w))))\<lparr>locked := False\<rparr>)
      | _ \<Rightarrow> None)"
| "step s (TransferCall k) = Some (s\<lparr>tasks := tasks s @ [Transfer k Called]\<rparr>)"
| "step s (TransferStart i r) =
     (case task_at s i of
        Some (Transfer k Called) \<Rightarrow>
          Some (set_task s i (Transfer k (if r = None then Copying else Completed)))
      | _ \<Rightarrow> None)"
| "step s (TransferWait i) =
     (case task_at s i of
        Some (Transfer k Copying) \<Rightarrow> Some (set_task s i (Transfer k Completed))
      | _ \<Rightarrow> None)"

fun steps :: "comm_state \<Rightarrow> event list \<Rightarrow> comm_state option" where
  "steps s [] = Some s"
| "steps s (e # es) = (case step s e of None \<Rightarrow> None | Some s' \<Rightarrow> steps s' es)"

definition init :: comm_state where
  "init = \<lparr>locked = False, tasks = []\<rparr>"

text \<open>
  A task is in its critical section from taking the lock to releasing it; a remote
  command is in flight while its process is spawned and not yet waited for.
\<close>

fun critical :: "task \<Rightarrow> bool" where
  "critical (Exec Holding) = True"
| "critical (Exec InFlight) = True"
| "critical (Exec (Waited w)) = True"
| "critical t = False"

fun in_flight :: "task \<Rightarrow> bool" where
  "in_flight (Exec InFlight) = True"
| "in_flight t = False"

fun copying :: "task \<Rightarrow> bool" where
  "copying (Transfer k Copying) = True"
| "copying t = False"

fun is_transfer_event :: "event \<Rightarrow> bool" where
  "is_transfer_event (TransferCall k) = True"
| "is_transfer_event (TransferStart i r) = True"
| "is_transfer_event (TransferWait i) = True"
| "is_transfer_event e = False"

text \<open>
  The invariant of the lock: a task in its critical section implies the lock is held
  and no other task is in its critical section, and a held lock has such a task.
\<close>

definition mutex_inv :: "comm_state \<Rightarrow> bool" where
  "mutex_inv s \<longleftrightarrow>
     (\<forall>i<length (tasks s). critical (tasks s ! i) \<longrightarrow>
        locked s \<and> (\<forall>j<length (tasks s). critical (tasks s ! j) \<longrightarrow> j = i))
     \<and> (locked s \<longrightarrow> (\<exists>i<length (tasks s). critical (tasks s ! i)))"

section \<open>Build steps\<close>

subsection \<open>Driver, UI and state bag\<close>

record container_config =
  cc_Image :: string
  cc_RunCommand :: "string list"
  cc_Device :: "string list"
  cc_CapAdd :: "string list"
  cc_CapDrop :: "string list"
  cc_Volumes :: "string \<rightharpoonup> string"
  cc_TmpFs :: "string list"
  cc_Privileged :: bool
  cc_Systemd :: string

text \<open>
  The methods of the Driver interface that the Pull and Run steps call. A driver may
  keep state of its own (type \<open>'d\<close>); each method returns its Go result and the
  driver's next state.
\<close>

record 'd driver =
  drv_Login :: "string \<Rightarrow> string \<Rightarrow> string \<Rightarrow> 'd \<Rightarrow> err option \<times> 'd"
  drv_Logout :: "string \<Rightarrow> 'd \<Rightarrow> err option \<times> 'd"
  drv_Pull :: "string \<Rightarrow> 'd \<Rightarrow> err option \<times> 'd"
  drv_StartContainer :: "container_config \<Rightarrow> 'd \<Rightarrow> (err + string) \<times> 'd"
  drv_KillContainer :: "string \<Rightarrow> 'd \<Rightarrow> err option \<times> 'd"

datatype driver_call =
    CallLogin string string string
  | CallLogout string
  | CallPull string
  | CallStartContainer container_config
  | CallKillContainer string

datatype ui_msg = Say string | Message string | Error string

datatype bag_value = VUi | VDriver | VConfig config | VString string | VError err

datatype step_action = ActionContinue | ActionHalt

text \<open>
  Everything a step can touch: the state bag, what the UI was told, the driver calls
  made so far (in order) and the driver's own state.
\<close>

record 'd world =
  bag :: "string \<rightharpoonup> bag_value"
  ui :: "ui_msg list"
  calls :: "driver_call list"
  dstate :: 'd

text \<open>
  The type assertions \<open>state.Get("ui").(packersdk.Ui)\<close> and
  \<open>state.Get("driver").(Driver)\<close>: they hold for a bag entry of that type only, and
  the step panics otherwise.
\<close>

fun is_Ui :: "bag_value option \<Rightarrow> bool" where
  "is_Ui (Some VUi) = True"
| "is_Ui v = False"

fun is_Driver :: "bag_value option \<Rightarrow> bool" where
  "is_Driver (Some VDriver) = True"
| "is_Driver v = False"

definition Put :: "string \<Rightarrow> bag_value \<Rightarrow> 'd world \<Rightarrow> 'd world" where
  "Put k v w = w\<lparr>bag := (bag w)(k \<mapsto> v)\<rparr>"

definition tell :: "ui_msg \<Rightarrow> 'd world \<Rightarrow> 'd world" where
  "tell m w = w\<lparr>ui := ui w @ [m]\<rparr>"

text \<open>\<open>state.Put("error", err); ui.Error(err.Error())\<close>\<close>

definition record_error :: "err \<Rightarrow> 'd world \<Rightarrow> 'd world" where
  "record_error e w = tell (Error e) (Put ''error'' (VError e) w)"

definition invoke :: "driver_call \<Rightarrow> ('d \<Rightarrow> 'r \<times> 'd) \<Rightarrow> 'd world \<Rightarrow> 'r \<times> 'd world" where
  "invoke c m w = (case m (dstate w) of (r, d) \<Rightarrow> (r, w\<lparr>calls := calls w @ [c], dstate := d\<rparr>))"

subsection \<open>StepPull\<close>

definition pull_image :: "'d driver \<Rightarrow> config \<Rightarrow> 'd world \<Rightarrow> step_action \<times> 'd world" where
  "pull_image drv config w =
     (case invoke (CallPull (Image config)) (drv_Pull drv (Image config)) w of
        (Some e, w1) \<Rightarrow> (ActionHalt, record_error (''Error pulling Podman image: '' @ e) w1)
      | (None, w1) \<Rightarrow> (ActionContinue, w1))"

text \<open>The deferred function of \<open>StepPull.Run\<close>, registered once Login has succeeded.\<close>

definition logout_deferred :: "'d driver \<Rightarrow> config \<Rightarrow> 'd world \<Rightarrow> 'd world" where
  "logout_deferred drv config w =
     (case invoke (CallLogout (LoginServer config)) (drv_Logout drv (LoginServer config))
             (tell (Message ''Logging out...'') w) of
        (Some e, w1) \<Rightarrow> tell (Error (''Error logging out: '' @ e)) w1
      | (None, w1) \<Rightarrow> w1)"

definition StepPull_Run :: "'d driver \<Rightarrow> 'd world \<Rightarrow> (step_action \<times> 'd world) outcome" where
  "StepPull_Run drv w =
     (if \<not> is_Ui (bag w ''ui'') then Panic ''interface conversion: not a packer.Ui''
      else
        (case bag w ''config'' of
           Some (VConfig config) \<Rightarrow>
             (if \<not> Pull config then Returned (ActionContinue, w)
              else
                (let w1 = tell (Say (''Pulling Podman image: '' @ Image config)) w in
                 if \<not> is_Driver (bag w1 ''driver'') then Panic ''interface conversion: not a Driver''
                 else if Login config then
                   (case invoke (CallLogin (LoginServer config) (LoginUsername config) (LoginPassword config))
                           (drv_Login drv (LoginServer config) (LoginUsername config) (LoginPassword config))
                           (tell (Message ''Logging in...'') w1) of
                      (Some e, w2) \<Rightarrow> Returned (ActionHalt, record_error (''Error logging in: '' @ e) w2)
                    | (None, w2) \<Rightarrow>
                        (case pull_image drv config w2 of
                           (action, w3) \<Rightarrow> Returned (action, logout_deferred drv config w3)))
                 else Returned (pull_image drv config w1)))
         | _ \<Rightarrow> Returned (ActionHalt, record_error ''error encountered obtaining podman config'' w)))"

subsection \<open>StepRun\<close>

record step_run =
  containerId :: string

definition runConfig :: "config \<Rightarrow> string \<Rightarrow> container_config" where
  "runConfig config tempDir =
     \<lparr>cc_Image = Image config, cc_RunCommand = RunCommand config, cc_Device = Device config,
      cc_CapAdd = CapAdd config, cc_CapDrop = CapDrop config,
      cc_Volumes = (Volumes config)(tempDir \<mapsto> ContainerDir config),
      cc_TmpFs = TmpFs config, cc_Privileged = Privileged config, cc_Systemd = Systemd config\<rparr>"

definition StepRun_Run ::
  "'d driver \<Rightarrow> step_run \<Rightarrow> 'd world \<Rightarrow> (step_action \<times> step_run \<times> 'd world) outcome" where
  "StepRun_Run drv s w =
     (if \<not> is_Ui (bag w ''ui'') then Panic ''interface conversion: not a packer.Ui''
      else
        (case bag w ''config'' of
           Some (VConfig config) \<Rightarrow>
             (case bag w ''temp_dir'' of
                Some (VString tempDir) \<Rightarrow>
                  (if \<not> is_Driver (bag w ''driver'') then Panic ''interface conversion: not a Driver''
                   else
                     (let rc = runConfig config tempDir in
                      case invoke (CallStartContainer rc) (drv_StartContainer drv rc)
                             (tell (Say ''Starting podman container...'') w) of
                        (Inl e, w1) \<Rightarrow>
                          Returned (ActionHalt, s, record_error (''Error running container: '' @ e) w1)
                      | (Inr cid, w1) \<Rightarrow>
                          Returned (ActionContinue, s\<lparr>containerId := cid\<rparr>,
                            tell (Message (''Container ID: '' @ cid))
                              (Put ''instance_id'' (VString cid) (Put ''container_id'' (VString cid) w1)))))
              | _ \<Rightarrow> Panic ''interface conversion: not a string'')
         | _ \<Rightarrow> Returned (ActionHalt, s, record_error ''error encountered obtaining podman config'' w)))"

definition StepRun_Cleanup :: "'d driver \<Rightarrow> step_run \<Rightarrow> 'd world \<Rightarrow> (step_run \<times> 'd world) outcome" where
  "StepRun_Cleanup drv s w =
     (if containerId s = [] then Returned (s, w)
      else if \<not> is_Driver (bag w ''driver'') then Panic ''interface conversion: not a Driver''
      else if \<not> is_Ui (bag w ''ui'') then Panic ''interface conversion: not a packer.Ui''
      else
        (case invoke (CallKillContainer (containerId s)) (drv_KillContainer drv (containerId s))
                (tell (Say (''Killing the container: '' @ containerId s)) w) of
           (r, w1) \<Rightarrow> Returned (s\<lparr>containerId := []\<rparr>, w1)))"

section \<open>Fixtures\<close>

text \<open>
  Concrete values for the examples: a driver that answers every call with a fixed
  result, in the manner of the test suite's MockDriver; the bag a pipeline runner hands
  to the first step; a Communicator bound to container \<open>c1\<close>; sub-processes for which
  every system call succeeds, or the spawn fails, or the wait fails; and the commands
  they lead to.
\<close>

definition MockDriver ::
  "err option \<Rightarrow> err option \<Rightarrow> err option \<Rightarrow> err + string \<Rightarrow> err option \<Rightarrow> unit driver" where
  "MockDriver loginErr logoutErr pullErr startResult killErr =
     \<lparr>drv_Login = (\<lambda>repo user pass d. (loginErr, d)),
      drv_Logout = (\<lambda>repo d. (logoutErr, d)),
      drv_Pull = (\<lambda>image d. (pullErr, d)),
      drv_StartContainer = (\<lambda>cc d. (startResult, d)),
      drv_KillContainer = (\<lambda>cid d. (killErr, d))\<rparr>"

definition testConfig :: "bool \<Rightarrow> bool \<Rightarrow> config" where
  "testConfig pull login =
     \<lparr>Image = ''foo'', RunCommand = [], Device = [], CapAdd = [], CapDrop = [], TmpFs = [],
      Volumes = Map.empty, Privileged = False, Systemd = ''true'', ContainerDir = ''/packer-files'',
      ExecUser = [], Pty = False, Pull = pull, FixUploadOwner = True, Login = login,
      LoginPassword = ''secret'', LoginServer = ''registry.example.com'', LoginUsername = ''user''\<rparr>"

definition testState :: "config \<Rightarrow> unit world" where
  "testState config =
     \<lparr>bag = [''ui'' \<mapsto> VUi, ''driver'' \<mapsto> VDriver, ''config'' \<mapsto> VConfig config,
             ''temp_dir'' \<mapsto> VString ''/tmp/packer''],
      ui = [], calls = [], dstate = ()\<rparr>"

text \<open>The world after the Run step has started container \<open>c1\<close>, and after its Cleanup.\<close>

definition afterRun :: "unit world" where
  "afterRun =
     \<lparr>bag = [''ui'' \<mapsto> VUi, ''driver'' \<mapsto> VDriver, ''config'' \<mapsto> VConfig (testConfig True False),
             ''temp_dir'' \<mapsto> VString ''/tmp/packer'', ''container_id'' \<mapsto> VString ''c1'',
             ''instance_id'' \<mapsto> VString ''c1''],
      ui = [Say ''Starting podman container...'', Message ''Container ID: c1''],
      calls = [CallStartContainer (runConfig (testConfig True False) ''/tmp/packer'')],
      dstate = ()\<rparr>"

definition afterCleanup :: "unit world" where
  "afterCleanup =
     afterRun\<lparr>ui := ui afterRun @ [Say ''Killing the container: c1''],
              calls := calls afterRun @ [CallKillContainer ''c1'']\<rparr>"

definition testCommunicator :: communicator where
  "testCommunicator =
     \<lparr>ContainerID = ''c1'', HostDir = ''/tmp/packer'', CommContainerDir = ''/packer-files'',
      Version = ''4.9.3'', Config = testConfig True False, ContainerUser = [],
      EntryPoint = [''/bin/sh'', ''-c'']\<rparr>"

definition proc_ok :: proc_env where
  "proc_ok =
     \<lparr>stdout_pipe = None, stderr_pipe = None, stdin_pipe = None, start_res = None,
      stderr_all = Inr [], wait_res = None, chown_res = None\<rparr>"

definition chown_root_cmd :: "string \<Rightarrow> argv" where
  "chown_root_cmd dst =
     [''podman'', ''exec'', ''--user'', ''root'', ''c1'', ''/bin/sh'', ''-c'', ''chown -R root '' @ dst]"

definition file_header :: "string \<Rightarrow> nat \<Rightarrow> tar_header" where
  "file_header name n = \<lparr>hdr_Name = name, hdr_Size = n, hdr_IsDir = False\<rparr>"

definition upload_ok :: upload_env where
  "upload_ok =
     \<lparr>create_temp = None, temp_copy = None, temp_seek = None,
      temp_stat = Inr \<lparr>fi_Name = ''upload123'', fi_Size = 5, fi_IsDir = False\<rparr>,
      up_proc = proc_ok, header_failure = None, write_header = None, up_copy = None,
      archive_close = None, stdin_close = None\<rparr>"

definition spawn_fails :: exec_env where
  "spawn_fails =
     \<lparr>ex_stdin_pipe = None, ex_stderr_pipe = None, ex_stdout_pipe = None,
      ex_start = Some ''exec: podman: executable file not found in $PATH'',
      ex_stdout = [], ex_stderr = [], ex_wait = WaitNil\<rparr>"

definition wait_fails :: exec_env where
  "wait_fails =
     \<lparr>ex_stdin_pipe = None, ex_stderr_pipe = None, ex_stdout_pipe = None, ex_start = None,
      ex_stdout = [], ex_stderr = [],
      ex_wait = cmd_Wait (Some ''wait: no child processes'') True (KilledBy 9)\<rparr>"

definition testRemote :: remote_cmd where
  "testRemote =
     \<lparr>Command = ''echo hi'', Stdin = None, Stdout = Some [], Stderr = Some [], exit_cell = None\<rparr>"

section \<open>Properties of the transfers\<close>

text \<open>
  Claim C7. For a non-empty source path, the copy command that \<open>UploadDir\<close> starts is
  \<open>podman cp SRC CONTAINER:DST\<close> where \<open>SRC\<close> is the source path followed by a dot
  exactly when the source path ends with a slash, and the source path unchanged
  otherwise.
\<close>

theorem UploadDir_contents_marker:
  assumes "src \<noteq> []" and "stderr_pipe env = None" and "start_res env = None"
  shows "\<exists>r rest. UploadDir c dst src exclude env =
           Returned (r, [''podman'', ''cp'', (if last src = CHR ''/'' then src @ ''.'' else src),
                         ContainerID c @ '':'' @ dst] # rest)"
  using assms
  by (auto simp: UploadDir_def UploadDir_cmd_def podmanSource_def Let_def
           split: option.splits sum.splits prod.splits)

theorem UploadDir_contents_marker_witness:
  "UploadDir testCommunicator ''/dst'' ''/tmp/dir/'' [] proc_ok =
     Returned (None, [[''podman'', ''cp'', ''/tmp/dir/.'', ''c1:/dst''], chown_root_cmd ''/dst''])
   \<and> UploadDir testCommunicator ''/dst'' ''/tmp/dir'' [] proc_ok =
     Returned (None, [[''podman'', ''cp'', ''/tmp/dir'', ''c1:/dst''], chown_root_cmd ''/dst''])"
  using UploadDir_contents_marker
          [where src = "''/tmp/dir/''" and env = proc_ok and c = testCommunicator
             and dst = "''/dst''" and exclude = "[]"]
        UploadDir_contents_marker
          [where src = "''/tmp/dir''" and env = proc_ok and c = testCommunicator
             and dst = "''/dst''" and exclude = "[]"]
  by (simp add: UploadDir_def UploadDir_cmd_def podmanSource_def fixDestinationOwner_def
        testCommunicator_def testConfig_def proc_ok_def chown_root_cmd_def)

text \<open>
  Claim C10. \<open>UploadDir\<close> reads the last byte of the source path before it does anything
  else: on the empty source path it panics with an index out of range, and it returns
  (with or without an error) exactly when the source path is not empty.
\<close>

theorem UploadDir_empty_source_panics:
  "UploadDir c dst [] exclude env = Panic ''runtime error: index out of range [-1]'' \<and>
   ((\<exists>res. UploadDir c dst src exclude env = Returned res) \<longleftrightarrow> src \<noteq> [])"
  by (auto simp: UploadDir_def Let_def split: option.splits sum.splits prod.splits)

text \<open>
  Claim C6. Once the copy process runs, \<open>Download\<close> needs a first archive entry. When no
  header can be read (the end of an empty archive included), the error carries the
  text read from stderr if that text is not empty, as \<open>Error downloading file: TEXT\<close>,
  and is the tar header error otherwise, and nothing is written. When a first entry is
  there, what is written to the destination is that entry's body and nothing of a later
  entry (a prefix of the body if the copy fails part-way).
\<close>

theorem Download_first_entry:
  assumes "stdout_pipe (dl_proc env) = None" and "stderr_pipe (dl_proc env) = None"
      and "start_res (dl_proc env) = None"
  shows "(\<forall>e. tar_Next (dl_stdout env) = Inl e \<longrightarrow>
            Download c src env =
              (Some (case stderr_all (dl_proc env) of
                       Inr stderrOut \<Rightarrow>
                         if stderrOut \<noteq> [] then ''Error downloading file: '' @ stderrOut
                         else ''Failed to read header from tar stream: '' @ e
                     | Inl _ \<Rightarrow> ''Failed to read header from tar stream: '' @ e),
               [Download_cmd c src], []))
       \<and> (dl_stdout env = Inr [] \<longrightarrow> tar_Next (dl_stdout env) = Inl ''EOF'')
       \<and> (\<forall>header body rest. dl_stdout env = Inr ((header, body) # rest) \<longrightarrow>
            snd (snd (Download c src env)) =
              (case dl_copy env of None \<Rightarrow> body | Some (n, e) \<Rightarrow> take n body))"
  using assms
  by (auto simp: Download_def tar_Next_def io_Copy_def Let_def
           split: option.splits sum.splits prod.splits list.splits)

theorem Download_first_entry_witness:
  "Download testCommunicator ''/etc/missing''
      \<lparr>dl_proc = proc_ok\<lparr>stderr_all := Inr ''no such file''\<rparr>, dl_stdout = Inr [], dl_copy = None\<rparr>
     = (Some ''Error downloading file: no such file'',
        [[''podman'', ''cp'', ''c1:/etc/missing'', ''-'']], [])
   \<and> Download testCommunicator ''/etc/missing''
      \<lparr>dl_proc = proc_ok, dl_stdout = Inr [], dl_copy = None\<rparr>
     = (Some ''Failed to read header from tar stream: EOF'',
        [[''podman'', ''cp'', ''c1:/etc/missing'', ''-'']], [])
   \<and> Download testCommunicator ''/etc/hosts''
      \<lparr>dl_proc = proc_ok,
        dl_stdout = Inr [(file_header ''hosts'' 5, ''hello''), (file_header ''other'' 5, ''world'')],
        dl_copy = None\<rparr>
     = (None, [[''podman'', ''cp'', ''c1:/etc/hosts'', ''-'']], ''hello'')"
  using Download_first_entry
          [where env = "\<lparr>dl_proc = proc_ok\<lparr>stderr_all := Inr ''no such file''\<rparr>,
                          dl_stdout = Inr [], dl_copy = None\<rparr>"
             and c = testCommunicator and src = "''/etc/missing''"]
        Download_first_entry
          [where env = "\<lparr>dl_proc = proc_ok, dl_stdout = Inr [], dl_copy = None\<rparr>"
             and c = testCommunicator and src = "''/etc/missing''"]
        Download_first_entry
          [where env = "\<lparr>dl_proc = proc_ok,
                          dl_stdout = Inr [(file_header ''hosts'' 5, ''hello''),
                                           (file_header ''other'' 5, ''world'')],
                          dl_copy = None\<rparr>"
             and c = testCommunicator and src = "''/etc/hosts''"]
  by (simp add: Download_def Download_cmd_def tar_Next_def io_Copy_def
        testCommunicator_def proc_ok_def)

lemma uploadFile_single_entry:
  "length (snd (snd (uploadFile c dst src fi env))) \<le> 1
   \<and> (\<forall>entry \<in> set (snd (snd (uploadFile c dst src fi env))).
         hdr_Name (fst entry) = filepath_Base dst \<and> prefix (snd entry) src)
   \<and> (fst (snd (uploadFile c dst src fi env)) \<noteq> [] \<longrightarrow>
         hd (fst (snd (uploadFile c dst src fi env))) = uploadFile_cmd c dst)
   \<and> (fst (uploadFile c dst src fi env) = None \<longrightarrow>
         fst (snd (uploadFile c dst src fi env)) \<noteq> [] \<and>
         (\<exists>header. snd (snd (uploadFile c dst src fi env)) = [(header, src)]))"
  by (auto simp: uploadFile_def io_Copy_def Let_def FileInfoHeader_def take_is_prefix
           split: option.splits sum.splits prod.splits)

text \<open>The path helpers on inputs from the Go library's own test tables.\<close>

lemma filepath_Clean_table:
  "map filepath_Clean
     ['''', ''abc/'', ''abc//def//ghi'', ''//abc//'', ''abc/./def'', ''abc/def/../ghi/../jkl'',
      ''abc/def/../..'', ''/abc/def/../../..'', ''abc/def/../../../ghi/jkl/../../../mno'', ''/../abc'']
   = [''.'', ''abc'', ''abc/def/ghi'', ''/abc'', ''abc/def'', ''abc/jkl'',
      ''.'', ''/'', ''../../mno'', ''/abc'']"
  by code_simp

lemma filepath_Dir_table:
  "map filepath_Dir ['''', ''.'', ''/.'', ''/'', ''/foo'', ''x/'', ''abc'', ''abc/def'', ''a/b/.x'', ''////'']
   = [''.'', ''.'', ''/'', ''/'', ''/'', ''x'', ''.'', ''abc'', ''a/b'', ''/'']"
  by code_simp

lemma filepath_Base_table:
  "map filepath_Base ['''', ''.'', ''/.'', ''/'', ''////'', ''x/'', ''abc'', ''abc/def'', ''a/b/.x'']
   = [''.'', ''.'', ''.'', ''/'', ''/'', ''x'', ''abc'', ''def'', ''.x'']"
  by code_simp

lemma filepath_Dir_example: "filepath_Dir ''/tmp/a/b.txt'' = ''/tmp/a''"
  by (simp add: filepath_Dir_def filepath_Clean_def clean_push_def)

lemma filepath_Base_example: "filepath_Base ''/tmp/a/b.txt'' = ''b.txt''"
  by (simp add: filepath_Base_def)

text \<open>
  Claim C8. For every upload, with file metadata or through the temporary file, the
  archive written to the copy process holds at most one entry; an entry is named the
  base name of the destination path and its body is a prefix of the source; the copy
  process, when one is started, is \<open>podman cp - CONTAINER:DIR\<close> with \<open>DIR\<close> the directory
  of the destination path; and an upload that returns no error wrote exactly one entry,
  whose body is the whole source.
\<close>

theorem Upload_single_entry:
  "length (snd (snd (Upload c dst src fi env))) \<le> 1
   \<and> (\<forall>entry \<in> set (snd (snd (Upload c dst src fi env))).
         hdr_Name (fst entry) = filepath_Base dst \<and> prefix (snd entry) src)
   \<and> (fst (snd (Upload c dst src fi env)) \<noteq> [] \<longrightarrow>
         hd (fst (snd (Upload c dst src fi env))) =
           [''podman'', ''cp'', ''-'', ContainerID c @ '':'' @ filepath_Dir dst])
   \<and> (fst (Upload c dst src fi env) = None \<longrightarrow>
         fst (snd (Upload c dst src fi env)) \<noteq> [] \<and>
         (\<exists>header. snd (snd (Upload c dst src fi env)) = [(header, src)]))"
proof (cases fi)
  case None
  show ?thesis
  proof (cases "create_temp env = None \<and> temp_copy env = None \<and> temp_seek env = None")
    case True
    show ?thesis
    proof (cases "temp_stat env")
      case (Inl e)
      with True None show ?thesis by (simp add: Upload_def uploadReader_def)
    next
      case (Inr info)
      with True None have "Upload c dst src fi env = uploadFile c dst src info env"
        by (simp add: Upload_def uploadReader_def)
      then show ?thesis
        using uploadFile_single_entry [of c dst src info env] by (simp add: uploadFile_cmd_def)
    qed
  next
    case False
    with None show ?thesis
      by (auto simp: Upload_def uploadReader_def split: option.splits)
  qed
next
  case (Some info)
  then have "Upload c dst src fi env = uploadFile c dst src info env"
    by (simp add: Upload_def)
  then show ?thesis
    using uploadFile_single_entry [of c dst src info env] by (simp add: uploadFile_cmd_def)
qed

theorem Upload_single_entry_witness:
  "Upload testCommunicator ''/tmp/a/b.txt'' ''data!''
      (Some \<lparr>fi_Name = ''local.txt'', fi_Size = 5, fi_IsDir = False\<rparr>) upload_ok
     = (None, [[''podman'', ''cp'', ''-'', ''c1:/tmp/a''], chown_root_cmd ''/tmp/a/b.txt''],
        [(file_header ''b.txt'' 5, ''data!'')])
   \<and> Upload testCommunicator ''/tmp/a/b.txt'' ''data!'' None upload_ok
     = (None, [[''podman'', ''cp'', ''-'', ''c1:/tmp/a''], chown_root_cmd ''/tmp/a/b.txt''],
        [(file_header ''b.txt'' 5, ''data!'')])"
  using Upload_single_entry
          [where c = testCommunicator and dst = "''/tmp/a/b.txt''" and src = "''data!''"
             and fi = "Some \<lparr>fi_Name = ''local.txt'', fi_Size = 5, fi_IsDir = False\<rparr>"
             and env = upload_ok]
        Upload_single_entry
          [where c = testCommunicator and dst = "''/tmp/a/b.txt''" and src = "''data!''"
             and fi = None and env = upload_ok]
  by (simp add: Upload_def uploadReader_def uploadFile_def uploadFile_cmd_def io_Copy_def
        FileInfoHeader_def fixDestinationOwner_def filepath_Dir_example filepath_Base_example
        testCommunicator_def testConfig_def proc_ok_def upload_ok_def chown_root_cmd_def
        file_header_def)

section \<open>Properties of remote commands\<close>

lemma exitStatus_when_wait_reports:
  "exitStatus (cmd_Wait None has_wait_status ended) = 0 \<longleftrightarrow> ended = ExitedWith 0"
  by (cases ended) (auto simp: exitStatus_def cmd_Wait_def ExitStatus_def)

lemma exitStatus_without_wait_status:
  "ended \<noteq> ExitedWith 0 \<Longrightarrow> exitStatus (cmd_Wait None False ended) = 1"
  by (simp add: exitStatus_def cmd_Wait_def)

lemma run_publishes:
  "exit_cell (run remote env) =
     Some (case ex_start env of Some e \<Rightarrow> 254 | None \<Rightarrow> exitStatus (ex_wait env))"
  by (simp add: run_def SetExited_def split: option.splits)

lemma run_status_when_wait_reports:
  assumes "ex_start env = None" and "ex_wait env = cmd_Wait None has_wait_status ended"
  shows "exit_cell (run remote env) = Some 0 \<longleftrightarrow> ended = ExitedWith 0"
  using assms exitStatus_when_wait_reports [of has_wait_status ended]
  by (simp add: run_publishes)

text \<open>
  Claim C1. The published status is 0 exactly when the process exited with code 0 as
  long as \<open>cmd.Wait\<close> reports how the process ended (\<open>run_status_when_wait_reports\<close>), and
  it is 1 when the process state carries no wait status
  (\<open>exitStatus_without_wait_status\<close>). When waiting itself fails, \<open>cmd.Wait\<close> returns an
  error that is not an \<open>*exec.ExitError\<close>, the type assertion in \<open>run\<close> does not hold,
  \<open>exitStatus\<close> keeps its zero value and \<open>run\<close> publishes 0, here for a process that a
  signal killed.
\<close>

theorem run_wait_failure_publishes_zero:
  "ex_wait wait_fails = WaitOther ''wait: no child processes''
   \<and> exit_cell (run remote wait_fails) = Some 0"
  by (simp add: run_def SetExited_def exitStatus_def cmd_Wait_def wait_fails_def)

text \<open>
  Claim C9. When the three pipes of the exec process are created, \<open>Start\<close> returns
  \<open>nil\<close> and launches \<open>run\<close>, whatever \<open>cmd.Start\<close> will answer later; if the process
  then fails to spawn, \<open>run\<close> does nothing but write 254 to the exit-status cell.
\<close>

theorem Start_returns_nil_spawn_failure_254:
  assumes "ex_stdin_pipe env = None" and "ex_stderr_pipe env = None" and "ex_stdout_pipe env = None"
  shows "Start c remote env = (None, Some (''podman'' # podmanArgs c remote))
       \<and> (\<forall>e. ex_start env = Some e \<longrightarrow> run remote env = remote\<lparr>exit_cell := Some 254\<rparr>)"
  using assms by (simp add: Start_def run_def SetExited_def)

theorem Start_returns_nil_spawn_failure_254_witness:
  "Start testCommunicator testRemote spawn_fails =
     (None, Some [''podman'', ''exec'', ''-i'', ''c1'', ''/bin/sh'', ''-c'', ''(echo hi)''])
   \<and> exit_cell (run testRemote spawn_fails) = Some 254"
  using Start_returns_nil_spawn_failure_254
          [where env = spawn_fails and c = testCommunicator and remote = testRemote]
  by (simp add: spawn_fails_def testRemote_def testCommunicator_def testConfig_def podmanArgs_def)

section \<open>Properties of the lock\<close>

lemma mutex_inv_init: "mutex_inv init"
  by (simp add: mutex_inv_def init_def)

lemma mutex_inv_append:
  assumes "mutex_inv s" and "\<not> critical t"
  shows "mutex_inv (s\<lparr>tasks := tasks s @ [t]\<rparr>)"
  using assms unfolding mutex_inv_def
  by (auto simp: nth_append less_Suc_eq)

lemma mutex_inv_same:
  assumes "mutex_inv s" and "i < length (tasks s)" and "critical t = critical (tasks s ! i)"
  shows "mutex_inv (set_task s i t)"
  using assms unfolding mutex_inv_def set_task_def
  by (auto simp: nth_list_update)

lemma mutex_inv_enter:
  assumes "mutex_inv s" and "i < length (tasks s)" and "\<not> locked s" and "critical t"
  shows "mutex_inv ((set_task s i t)\<lparr>locked := True\<rparr>)"
  using assms unfolding mutex_inv_def set_task_def
  by (auto simp: nth_list_update)

lemma mutex_inv_leave:
  assumes "mutex_inv s" and "i < length (tasks s)" and "critical (tasks s ! i)" and "\<not> critical t"
  shows "mutex_inv ((set_task s i t)\<lparr>locked := False\<rparr>)"
  using assms unfolding mutex_inv_def set_task_def
  by (auto simp: nth_list_update)

lemma step_preserves_mutex_inv:
  assumes "mutex_inv s" and "step s e = Some s'"
  shows "mutex_inv s'"
proof (cases e)
  case Submit
  with assms show ?thesis by (auto intro: mutex_inv_append)
next
  case (Lock i)
  with assms show ?thesis
    by (auto simp: task_at_def split: if_splits intro!: mutex_inv_enter)
next
  case (CmdStart i r)
  with assms show ?thesis
    by (cases r) (auto simp: task_at_def split: if_splits intro!: mutex_inv_same mutex_inv_leave)
next
  case (CmdWait i w)
  with assms show ?thesis
    by (auto simp: task_at_def split: if_splits intro!: mutex_inv_same)
next
  case (Publish i)
  with assms show ?thesis
    by (auto simp: task_at_def split: if_splits option.splits task.splits exec_pc.splits
             intro!: mutex_inv_leave)
next
  case (TransferCall k)
  with assms show ?thesis by (auto intro: mutex_inv_append)
next
  case (TransferStart i r)
  with assms show ?thesis
    by (auto simp: task_at_def split: if_splits option.splits task.splits transfer_pc.splits
             intro!: mutex_inv_same)
next
  case (TransferWait i)
  with assms show ?thesis
    by (auto simp: task_at_def split: if_splits option.splits task.splits transfer_pc.splits
             intro!: mutex_inv_same)
qed

lemma steps_preserve_mutex_inv:
  "mutex_inv s \<Longrightarrow> steps s es = Some s' \<Longrightarrow> mutex_inv s'"
proof (induction es arbitrary: s)
  case Nil
  then show ?case by simp
next
  case (Cons e es)
  then show ?case
    by (auto split: option.splits dest: step_preserves_mutex_inv)
qed

lemma schedule_of_one_command:
  "steps init [Submit, Lock 0, CmdStart 0 None, CmdWait 0 w, Publish 0] =
     Some \<lparr>locked = False, tasks = [Exec (Finished (exitStatus w))]\<rparr>"
  "steps init [Submit, Lock 0, CmdStart 0 (Some e)] =
     Some \<lparr>locked = False, tasks = [Exec (Finished 254)]\<rparr>"
  by (simp_all add: init_def task_at_def set_task_def)

lemma in_flight_critical: "in_flight t \<Longrightarrow> critical t"
  by (cases t rule: in_flight.cases) auto

text \<open>
  Claim C2. In every state that submissions, transfers and the steps of their tasks can
  reach from the idle Communicator: at most one remote command is in flight; a task
  between taking the lock and returning from \<open>run\<close> (spawn, stream copy, wait, publish)
  holds the lock and is the only such task; and the process of a command can be spawned
  only while every other command is either still waiting for the lock or has returned
  from \<open>run\<close> and released it.
\<close>

theorem remote_commands_serialized:
  assumes "steps init es = Some s"
  shows "(\<forall>i<length (tasks s). \<forall>j<length (tasks s).
            in_flight (tasks s ! i) \<and> in_flight (tasks s ! j) \<longrightarrow> i = j)
       \<and> (\<forall>i<length (tasks s). critical (tasks s ! i) \<longrightarrow>
            locked s \<and> (\<forall>j<length (tasks s). critical (tasks s ! j) \<longrightarrow> j = i))
       \<and> (\<forall>j s'. step s (CmdStart j None) = Some s' \<longrightarrow>
            (\<forall>i<length (tasks s). i \<noteq> j \<longrightarrow> \<not> critical (tasks s ! i)))"
proof -
  have inv: "mutex_inv s"
    using steps_preserve_mutex_inv [OF mutex_inv_init assms] .
  have b: "\<forall>i<length (tasks s). critical (tasks s ! i) \<longrightarrow>
            locked s \<and> (\<forall>j<length (tasks s). critical (tasks s ! j) \<longrightarrow> j = i)"
    using inv unfolding mutex_inv_def by blast
  have a: "\<forall>i<length (tasks s). \<forall>j<length (tasks s).
            in_flight (tasks s ! i) \<and> in_flight (tasks s ! j) \<longrightarrow> i = j"
    using b in_flight_critical by blast
  have c: "\<forall>j s'. step s (CmdStart j None) = Some s' \<longrightarrow>
            (\<forall>i<length (tasks s). i \<noteq> j \<longrightarrow> \<not> critical (tasks s ! i))"
  proof (intro allI impI)
    fix j s' i
    assume st: "step s (CmdStart j None) = Some s'" and i: "i < length (tasks s)" and ne: "i \<noteq> j"
    from st have j: "j < length (tasks s)" and "tasks s ! j = Exec Holding"
      by (auto simp: task_at_def split: if_splits)
    then have "critical (tasks s ! j)" by simp
    with b i j ne show "\<not> critical (tasks s ! i)" by blast
  qed
  from a b c show ?thesis by blast
qed

theorem remote_commands_serialized_witness:
  "steps init [Submit, Submit, Lock 1, CmdStart 1 None] =
     Some \<lparr>locked = True, tasks = [Exec Queued, Exec InFlight]\<rparr>
   \<and> in_flight ([Exec Queued, Exec InFlight] ! 1)
   \<and> \<not> critical ([Exec Queued, Exec InFlight] ! 0)
   \<and> steps init [Submit, Submit, Lock 1, CmdStart 1 None, Lock 0] = None"
proof -
  have r: "steps init [Submit, Submit, Lock 1, CmdStart 1 None] =
             Some \<lparr>locked = True, tasks = [Exec Queued, Exec InFlight]\<rparr>"
    by (simp add: init_def task_at_def set_task_def)
  show ?thesis
    using r remote_commands_serialized [OF r]
    by (simp add: init_def task_at_def set_task_def)
qed

text \<open>
  Claim C3, as the code has it. \<open>Upload\<close>, \<open>UploadDir\<close> and \<open>Download\<close> never take or
  release the Communicator's lock: each step of a transfer is taken whatever the state
  of the lock and leaves the lock as it was. Only remote commands exclude one another.
\<close>

theorem transfers_ignore_lock:
  "is_transfer_event e \<Longrightarrow>
     step (s\<lparr>locked := b\<rparr>) e = map_option (\<lambda>s'. s'\<lparr>locked := b\<rparr>) (step s e)
   \<and> (\<forall>s'. step s e = Some s' \<longrightarrow> locked s' = locked s)"
  by (cases e)
     (auto simp: task_at_def set_task_def
           split: option.splits task.splits transfer_pc.splits)

theorem transfers_ignore_lock_witness:
  "is_transfer_event (TransferStart 1 None)
   \<and> step \<lparr>locked = True, tasks = [Exec InFlight, Transfer KDownload Called]\<rparr> (TransferStart 1 None)
       = Some \<lparr>locked = True, tasks = [Exec InFlight, Transfer KDownload Copying]\<rparr>
   \<and> step \<lparr>locked = False, tasks = [Exec InFlight, Transfer KDownload Called]\<rparr> (TransferStart 1 None)
       = Some \<lparr>locked = False, tasks = [Exec InFlight, Transfer KDownload Copying]\<rparr>"
  using transfers_ignore_lock
          [where e = "TransferStart 1 None"
             and s = "\<lparr>locked = True, tasks = [Exec InFlight, Transfer KDownload Called]\<rparr>"
             and b = False]
  by (simp add: task_at_def set_task_def)

text \<open>
  Claim C3 as stated fails: while a remote command is in flight and holds the lock, an
  upload starts its copy process, and a download starts its own beside it.
\<close>

theorem transfer_overlaps_remote_command:
  "steps init [Submit, Lock 0, CmdStart 0 None, TransferCall KUpload, TransferStart 1 None,
               TransferCall KDownload, TransferStart 2 None]
     = Some \<lparr>locked = True,
             tasks = [Exec InFlight, Transfer KUpload Copying, Transfer KDownload Copying]\<rparr>
   \<and> in_flight (Exec InFlight) \<and> copying (Transfer KUpload Copying)
   \<and> copying (Transfer KDownload Copying)"
  by (simp add: init_def task_at_def set_task_def)

section \<open>Properties of the build steps\<close>

lemma is_Ui_iff: "is_Ui v \<longleftrightarrow> v = Some VUi"
  by (cases v rule: is_Ui.cases) simp_all

lemma is_Driver_iff: "is_Driver v \<longleftrightarrow> v = Some VDriver"
  by (cases v rule: is_Driver.cases) simp_all

lemma invoke_simps:
  "calls (snd (invoke c m w)) = calls w @ [c]"
  "bag (snd (invoke c m w)) = bag w"
  "fst (invoke c m w) = fst (m (dstate w))"
  by (auto simp: invoke_def split: prod.splits)

lemma tell_simps:
  "calls (tell m w) = calls w" "bag (tell m w) = bag w" "dstate (tell m w) = dstate w"
  by (auto simp: tell_def)

lemma record_error_simps:
  "calls (record_error e w) = calls w" "bag (record_error e w) = (bag w)(''error'' \<mapsto> VError e)"
  by (auto simp: record_error_def Put_def tell_def)

lemma pull_image_calls:
  "calls (snd (pull_image drv config w)) = calls w @ [CallPull (Image config)]"
  by (auto simp: pull_image_def invoke_def record_error_simps split: prod.splits option.splits)

lemma logout_deferred_calls:
  "calls (logout_deferred drv config w) = calls w @ [CallLogout (LoginServer config)]"
  by (auto simp: logout_deferred_def invoke_def tell_def split: prod.splits option.splits)

text \<open>
  Claim C4. In the Pull step with login configured (and the UI, the configuration and
  the driver in the bag): with pulling disabled the step continues and calls nothing;
  with pulling enabled \<open>Run\<close> returns and its first driver call is Login. If Login
  fails, the step halts with the error recorded and Login is its only driver call: no
  Pull, no Logout. If Login succeeds, the driver calls are exactly Login, Pull, Logout,
  whatever Pull returns: one Logout, made before \<open>Run\<close> returns.
\<close>

theorem StepPull_login_then_logout_once:
  assumes "bag w ''ui'' = Some VUi" and "bag w ''config'' = Some (VConfig config)"
      and "bag w ''driver'' = Some VDriver" and "Login config"
  shows "(\<not> Pull config \<longrightarrow> StepPull_Run drv w = Returned (ActionContinue, w))
       \<and> (Pull config \<longrightarrow>
           (\<exists>action w'. StepPull_Run drv w = Returned (action, w')
             \<and> (\<exists>rest. calls w' =
                   calls w @ CallLogin (LoginServer config) (LoginUsername config) (LoginPassword config) # rest)
             \<and> (\<forall>e. fst (drv_Login drv (LoginServer config) (LoginUsername config) (LoginPassword config)
                            (dstate w)) = Some e \<longrightarrow>
                   action = ActionHalt
                   \<and> bag w' ''error'' = Some (VError (''Error logging in: '' @ e))
                   \<and> calls w' =
                       calls w @ [CallLogin (LoginServer config) (LoginUsername config) (LoginPassword config)])
             \<and> (fst (drv_Login drv (LoginServer config) (LoginUsername config) (LoginPassword config)
                         (dstate w)) = None \<longrightarrow>
                   calls w' =
                     calls w @ [CallLogin (LoginServer config) (LoginUsername config) (LoginPassword config),
                                CallPull (Image config), CallLogout (LoginServer config)])))"
proof (cases "Pull config")
  case False
  with assms show ?thesis by (simp add: StepPull_Run_def)
next
  case True
  let ?login = "CallLogin (LoginServer config) (LoginUsername config) (LoginPassword config)"
  let ?m = "drv_Login drv (LoginServer config) (LoginUsername config) (LoginPassword config)"
  let ?w1 = "tell (Message ''Logging in...'') (tell (Say (''Pulling Podman image: '' @ Image config)) w)"
  obtain r w2 where inv: "invoke ?login ?m ?w1 = (r, w2)" by (cases "invoke ?login ?m ?w1")
  have r: "r = fst (?m (dstate w))" and c2: "calls w2 = calls w @ [?login]"
    using inv by (auto simp: invoke_def tell_def split: prod.splits)
  have pre: "is_Ui (bag w ''ui'')"
    "is_Driver (bag (tell (Say (''Pulling Podman image: '' @ Image config)) w) ''driver'')"
    using assms by (simp_all add: tell_simps)
  show ?thesis
  proof (cases r)
    case (Some e)
    with assms True inv pre have "StepPull_Run drv w =
        Returned (ActionHalt, record_error (''Error logging in: '' @ e) w2)"
      by (simp add: StepPull_Run_def Let_def)
    with Some True r c2 show ?thesis by (simp add: record_error_simps)
  next
    case None
    obtain action w3 where p: "pull_image drv config w2 = (action, w3)"
      by (cases "pull_image drv config w2")
    with None assms True inv pre have run: "StepPull_Run drv w =
        Returned (action, logout_deferred drv config w3)"
      by (simp add: StepPull_Run_def Let_def)
    have "calls w3 = calls w2 @ [CallPull (Image config)]"
      using pull_image_calls [of drv config w2] p by simp
    then have "calls (logout_deferred drv config w3) =
        calls w @ [?login, CallPull (Image config), CallLogout (LoginServer config)]"
      using c2 by (simp add: logout_deferred_calls)
    with run None True r show ?thesis by simp
  qed
qed

theorem StepPull_login_then_logout_once_witness:
  "(case StepPull_Run (MockDriver None None (Some ''manifest unknown'') (Inr ''c1'') None)
           (testState (testConfig True True)) of
      Returned (action, w') \<Rightarrow> (action, calls w', bag w' ''error'')
    | Panic msg \<Rightarrow> (ActionContinue, [], None))
   = (ActionHalt,
      [CallLogin ''registry.example.com'' ''user'' ''secret'', CallPull ''foo'',
       CallLogout ''registry.example.com''],
      Some (VError ''Error pulling Podman image: manifest unknown''))"
  using StepPull_login_then_logout_once
          [where w = "testState (testConfig True True)" and config = "testConfig True True"
             and drv = "MockDriver None None (Some ''manifest unknown'') (Inr ''c1'') None"]
  by (simp add: StepPull_Run_def pull_image_def logout_deferred_def invoke_def tell_def
        record_error_def Put_def MockDriver_def testState_def testConfig_def Let_def)

lemma StepRun_Run_records_handle:
  assumes "StepRun_Run drv s0 w0 = Returned (ActionContinue, s1, w1)"
  shows "bag w1 ''container_id'' = Some (VString (containerId s1))
       \<and> bag w1 ''instance_id'' = Some (VString (containerId s1))
       \<and> bag w1 ''driver'' = Some VDriver \<and> bag w1 ''ui'' = Some VUi"
  using assms
  by (auto simp: StepRun_Run_def Let_def Put_def tell_def invoke_def record_error_def
                 is_Ui_iff is_Driver_iff
           split: if_splits option.splits bag_value.splits prod.splits sum.splits)

text \<open>
  Claim C5, as the code has it. With a handle recorded in the step (and the driver and
  the UI in the bag), \<open>Cleanup\<close> makes exactly one KillContainer call, for that handle,
  whatever the call returns; it sets the step's handle to the empty string, so that a
  second \<open>Cleanup\<close> changes nothing and calls nothing; and it leaves the state bag as it
  was. With no handle recorded, \<open>Cleanup\<close> does nothing. After a \<open>Run\<close> that continued
  with a non-empty handle, \<open>Cleanup\<close> returns, and the bag's \<open>container_id\<close> still holds
  the handle that \<open>Run\<close> stored.
\<close>

theorem StepRun_Cleanup_kills_once:
  "(containerId s \<noteq> [] \<and> bag w ''driver'' = Some VDriver \<and> bag w ''ui'' = Some VUi \<longrightarrow>
      (\<exists>w'. StepRun_Cleanup drv s w = Returned (s\<lparr>containerId := []\<rparr>, w')
           \<and> calls w' = calls w @ [CallKillContainer (containerId s)]
           \<and> bag w' = bag w
           \<and> StepRun_Cleanup drv (s\<lparr>containerId := []\<rparr>) w' = Returned (s\<lparr>containerId := []\<rparr>, w')))
   \<and> (containerId s = [] \<longrightarrow> StepRun_Cleanup drv s w = Returned (s, w))
   \<and> (StepRun_Run drv s0 w0 = Returned (ActionContinue, s1, w1) \<and> containerId s1 \<noteq> [] \<longrightarrow>
      (\<exists>w2. StepRun_Cleanup drv s1 w1 = Returned (s1\<lparr>containerId := []\<rparr>, w2)
           \<and> calls w2 = calls w1 @ [CallKillContainer (containerId s1)]
           \<and> bag w2 ''container_id'' = Some (VString (containerId s1))))"
proof -
  have general: "\<exists>w'. StepRun_Cleanup drv s w = Returned (s\<lparr>containerId := []\<rparr>, w')
           \<and> calls w' = calls w @ [CallKillContainer (containerId s)]
           \<and> bag w' = bag w
           \<and> StepRun_Cleanup drv (s\<lparr>containerId := []\<rparr>) w' = Returned (s\<lparr>containerId := []\<rparr>, w')"
    if "containerId s \<noteq> []" and "bag w ''driver'' = Some VDriver" and "bag w ''ui'' = Some VUi"
    for s :: step_run and w :: "'a world"
    using that by (auto simp: StepRun_Cleanup_def tell_def invoke_def split: prod.splits)
  have none: "containerId s = [] \<longrightarrow> StepRun_Cleanup drv s w = Returned (s, w)"
    by (simp add: StepRun_Cleanup_def)
  have after_run: "\<exists>w2. StepRun_Cleanup drv s1 w1 = Returned (s1\<lparr>containerId := []\<rparr>, w2)
           \<and> calls w2 = calls w1 @ [CallKillContainer (containerId s1)]
           \<and> bag w2 ''container_id'' = Some (VString (containerId s1))"
    if r: "StepRun_Run drv s0 w0 = Returned (ActionContinue, s1, w1)" and h: "containerId s1 \<noteq> []"
  proof -
    from StepRun_Run_records_handle [OF r]
    have bagw1: "bag w1 ''container_id'' = Some (VString (containerId s1))"
        "bag w1 ''driver'' = Some VDriver" "bag w1 ''ui'' = Some VUi"
      by simp_all
    from general [OF h bagw1(2) bagw1(3)] obtain w2 where
      "StepRun_Cleanup drv s1 w1 = Returned (s1\<lparr>containerId := []\<rparr>, w2)"
      "calls w2 = calls w1 @ [CallKillContainer (containerId s1)]" "bag w2 = bag w1"
      by blast
    with bagw1(1) show ?thesis by simp
  qed
  from general none after_run show ?thesis by blast
qed

theorem StepRun_Cleanup_kills_once_witness:
  "(case StepRun_Cleanup (MockDriver None None None (Inr ''c7'') (Some ''no such container''))
           \<lparr>containerId = ''c7''\<rparr> (testState (testConfig True False)) of
      Returned (s', w') \<Rightarrow> (containerId s', calls w', bag w' ''error'')
    | Panic msg \<Rightarrow> (''panic'', [], None))
   = ([], [CallKillContainer ''c7''], None)
   \<and> StepRun_Cleanup (MockDriver None None None (Inr ''c7'') (Some ''no such container''))
        \<lparr>containerId = []\<rparr> (testState (testConfig True False))
       = Returned (\<lparr>containerId = []\<rparr>, testState (testConfig True False))
   \<and> (\<exists>w1. StepRun_Run (MockDriver None None None (Inr ''c7'') (Some ''no such container''))
               \<lparr>containerId = []\<rparr> (testState (testConfig True False))
             = Returned (ActionContinue, \<lparr>containerId = ''c7''\<rparr>, w1)
           \<and> (\<exists>w2. StepRun_Cleanup (MockDriver None None None (Inr ''c7'') (Some ''no such container''))
                      \<lparr>containerId = ''c7''\<rparr> w1 = Returned (\<lparr>containerId = []\<rparr>, w2)
                    \<and> bag w2 ''container_id'' = Some (VString ''c7'')))"
proof -
  let ?drv = "MockDriver None None None (Inr ''c7'') (Some ''no such container'')"
  let ?w0 = "testState (testConfig True False)"
  obtain w1 where run: "StepRun_Run ?drv \<lparr>containerId = []\<rparr> ?w0
      = Returned (ActionContinue, \<lparr>containerId = ''c7''\<rparr>, w1)"
    by (simp add: StepRun_Run_def MockDriver_def testState_def testConfig_def invoke_def Let_def)
  have a: "(case StepRun_Cleanup ?drv \<lparr>containerId = ''c7''\<rparr> ?w0 of
      Returned (s', w') \<Rightarrow> (containerId s', calls w', bag w' ''error'')
    | Panic msg \<Rightarrow> (''panic'', [], None))
   = ([], [CallKillContainer ''c7''], None)"
    using StepRun_Cleanup_kills_once
            [where s = "\<lparr>containerId = ''c7''\<rparr>" and w = ?w0 and drv = ?drv]
    by (simp add: StepRun_Cleanup_def invoke_def tell_def MockDriver_def testState_def)
  have b: "StepRun_Cleanup ?drv \<lparr>containerId = []\<rparr> ?w0 = Returned (\<lparr>containerId = []\<rparr>, ?w0)"
    using StepRun_Cleanup_kills_once [where s = "\<lparr>containerId = []\<rparr>" and w = ?w0 and drv = ?drv]
    by simp
  have c: "\<exists>w2. StepRun_Cleanup ?drv \<lparr>containerId = ''c7''\<rparr> w1 = Returned (\<lparr>containerId = []\<rparr>, w2)
                    \<and> bag w2 ''container_id'' = Some (VString ''c7'')"
    using run StepRun_Cleanup_kills_once
            [where drv = ?drv and ?s0.0 = "\<lparr>containerId = []\<rparr>" and ?w0.0 = ?w0
               and ?s1.0 = "\<lparr>containerId = ''c7''\<rparr>" and ?w1.0 = w1]
    by auto
  from a b c run show ?thesis by blast
qed

text \<open>
  Claim C5 as stated fails on its last part: \<open>Run\<close> stores the handle \<open>c1\<close> in the step
  and in the bag; after \<open>Cleanup\<close> (one kill call) the step's handle is empty, and the
  bag's \<open>container_id\<close> is still \<open>c1\<close>, not the empty string.
\<close>

theorem Cleanup_leaves_bag_container_id:
  "StepRun_Run (MockDriver None None None (Inr ''c1'') None) \<lparr>containerId = []\<rparr>
       (testState (testConfig True False))
     = Returned (ActionContinue, \<lparr>containerId = ''c1''\<rparr>, afterRun)
   \<and> StepRun_Cleanup (MockDriver None None None (Inr ''c1'') None) \<lparr>containerId = ''c1''\<rparr> afterRun
     = Returned (\<lparr>containerId = []\<rparr>, afterCleanup)
   \<and> bag afterCleanup ''container_id'' = Some (VString ''c1'')
   \<and> bag afterCleanup ''container_id'' \<noteq> Some (VString [])"
  by (simp add: StepRun_Run_def StepRun_Cleanup_def MockDriver_def testState_def
        afterRun_def afterCleanup_def invoke_def tell_def Put_def Let_def)

end
